theory Spec2Isabelle
  imports Main
begin

section \<open>Strings\<close>

text \<open>
  The string operations of the host language that the server uses:
  \<^verbatim>\<open>s.startsWith(p)\<close>, \<open>s.includes(p)\<close>, \<open>s.split(",")\<close>, \<open>xs.join(sep)\<close> and
  \<open>s.replace(/"/g, '""')\<close>. Strings are character lists.
\<close>

fun startsWith :: "string \<Rightarrow> string \<Rightarrow> bool" where
  "startsWith s [] = True"
| "startsWith [] (p # ps) = False"
| "startsWith (c # cs) (p # ps) = (c = p \<and> startsWith cs ps)"

fun includes_str :: "string \<Rightarrow> string \<Rightarrow> bool" where
  "includes_str [] p = (p = [])"
| "includes_str (c # cs) p = (startsWith (c # cs) p \<or> includes_str cs p)"

fun split_on :: "char \<Rightarrow> string \<Rightarrow> string list" where
  "split_on d [] = [[]]"
| "split_on d (c # cs) =
     (if c = d then [] # split_on d cs
      else (case split_on d cs of
              [] \<Rightarrow> [[c]]
            | w # ws \<Rightarrow> (c # w) # ws))"

fun join :: "string \<Rightarrow> string list \<Rightarrow> string" where
  "join sep [] = []"
| "join sep [x] = x"
| "join sep (x # y # ys) = x @ sep @ join sep (y # ys)"

definition dquote :: char where
  "dquote = CHR 0x22"

definition newline :: string where
  "newline = [CHR 0x0A]"

text \<open>\<^verbatim>\<open>s.replace(/"/g, '""')\<close>: every double quote is doubled.\<close>

fun replace_quotes :: "string \<Rightarrow> string" where
  "replace_quotes [] = []"
| "replace_quotes (c # cs) =
     (if c = dquote then dquote # dquote # replace_quotes cs else c # replace_quotes cs)"

text \<open>\<^verbatim>\<open>a || b\<close> on strings: the empty string is falsy.\<close>

definition or_str :: "string \<Rightarrow> string \<Rightarrow> string" where
  "or_str a b = (if a \<noteq> [] then a else b)"

text \<open>\<^verbatim>\<open>a || b\<close> where \<open>a\<close> may be undefined.\<close>

definition opt_or :: "string option \<Rightarrow> string \<Rightarrow> string" where
  "opt_or a b = (case a of None \<Rightarrow> b | Some s \<Rightarrow> or_str s b)"

text \<open>Decimal rendering of a non-negative count in a template literal.\<close>

definition digit_char :: "nat \<Rightarrow> char" where
  "digit_char n = char_of (48 + n)"

function showNat :: "nat \<Rightarrow> string" where
  "showNat n = (if n < 10 then [digit_char n] else showNat (n div 10) @ [digit_char (n mod 10)])"
  by pat_completeness auto
termination
  by (relation "measure id") auto

declare showNat.simps [simp del]

section \<open>Data model\<close>

text \<open>The interfaces \<open>Channel\<close> and \<open>User\<close>.\<close>

record channel =
  ch_id :: string
  ch_name :: string
  is_private :: bool
  is_im :: bool
  is_mpim :: bool
  topic :: "string option"
  purpose :: "string option"
  num_members :: "nat option"

record user =
  u_id :: string
  u_name :: string
  real_name :: string

text \<open>
  A \<open>Map<string, V>\<close> of the host language keeps its keys in insertion order; \<open>set\<close> on a
  key already present replaces the value in place, and on a new key appends.
\<close>

type_synonym 'v jsmap = "(string \<times> 'v) list"

definition map_get :: "'v jsmap \<Rightarrow> string \<Rightarrow> 'v option" where
  "map_get m k = map_of m k"

fun map_set :: "string \<Rightarrow> 'v \<Rightarrow> 'v jsmap \<Rightarrow> 'v jsmap" where
  "map_set k v [] = [(k, v)]"
| "map_set k v (p # ps) = (if fst p = k then (k, v) # ps else p # map_set k v ps)"

definition map_values :: "'v jsmap \<Rightarrow> 'v list" where
  "map_values m = map snd m"

text \<open>The four tables and the workspace label held by the server object.\<close>

record cache =
  channelsById :: "channel jsmap"
  channelsByName :: "channel jsmap"
  usersById :: "user jsmap"
  usersByName :: "user jsmap"
  workspace :: string

definition empty_cache :: cache where
  "empty_cache = \<lparr> channelsById = [], channelsByName = [], usersById = [], usersByName = [],
                   workspace = [] \<rparr>"

section \<open>Errors\<close>

text \<open>A thrown \<open>Error(message)\<close> is the value \<open>Inl (Error message)\<close>.\<close>

datatype error = Error string

fun error_message :: "error \<Rightarrow> string" where
  "error_message (Error m) = m"

definition err_dm_at :: error where
  "err_dm_at = Error ''Direct messages (@username) are not accessible for security reasons''"

definition err_dm_prefix :: error where
  "err_dm_prefix = Error ''Direct messages (D...) are not accessible for security reasons''"

definition err_dm_cached :: error where
  "err_dm_cached = Error ''Direct messages are not accessible for security reasons''"

definition err_not_found :: "string \<Rightarrow> error" where
  "err_not_found input = Error (''Channel '' @ input @ '' not found'')"

section \<open>Security policy\<close>


text \<open>\<open>resolveChannelId(input)\<close>: every \<open>throw\<close> is an \<open>Inl\<close>.\<close>

definition resolveChannelId :: "cache \<Rightarrow> string \<Rightarrow> error + string" where
  "resolveChannelId c input =
     (if startsWith input ''@'' then Inl err_dm_at
      else if startsWith input ''D'' then Inl err_dm_prefix
      else if startsWith input ''#'' then
        (case map_get (channelsByName c) input of
           None \<Rightarrow> Inl (err_not_found input)
         | Some ch \<Rightarrow>
             if is_im ch \<or> is_mpim ch then Inl err_dm_cached else Inr (ch_id ch))
      else
        (case map_get (channelsById c) input of
           None \<Rightarrow> Inr input
         | Some ch \<Rightarrow>
             if is_im ch \<or> is_mpim ch then Inl err_dm_cached else Inr input))"

section \<open>Remote service\<close>

text \<open>
  The records of the remote API that the server reads. A field that the server reads with
  \<open>x || default\<close> or \<open>x?.y\<close> is optional here.
\<close>

record raw_channel =
  rc_id :: string
  rc_name :: string
  rc_is_private :: "bool option"
  rc_is_im :: "bool option"
  rc_is_mpim :: "bool option"
  rc_topic :: "string option"
  rc_purpose :: "string option"
  rc_num_members :: "nat option"

record raw_user =
  ru_id :: string
  ru_name :: string
  ru_real_name :: "string option"
  ru_deleted :: "bool option"
  ru_is_bot :: "bool option"

record channel_page =
  pg_channels :: "raw_channel list"
  pg_channels_cursor :: "string option"

record user_page =
  pg_members :: "raw_user list"
  pg_members_cursor :: "string option"

record reaction =
  r_name :: string
  r_count :: nat

record message =
  m_ts :: string
  m_user :: "string option"
  m_text :: "string option"
  m_thread_ts :: "string option"
  m_reactions :: "reaction list option"

record messages_response =
  resp_messages :: "message list"
  resp_has_more :: bool
  resp_next_cursor :: "string option"

record search_match =
  sm_ts :: string
  sm_channel_name :: "string option"
  sm_user :: "string option"
  sm_username :: "string option"
  sm_text :: "string option"

record post_response =
  post_ts :: string
  post_channel :: string

text \<open>
  \<open>slackApi(method, params)\<close>, one function per method that the server calls. A transport
  failure or a response that is not ok is the thrown error.
\<close>

record remote =
  auth_test :: "error + string option"
  conversations_list :: "string option \<Rightarrow> error + channel_page"
  users_list :: "string option \<Rightarrow> error + user_page"
  conversations_history :: "string \<Rightarrow> int \<Rightarrow> string option \<Rightarrow> error + messages_response"
  conversations_replies ::
    "string \<Rightarrow> string option \<Rightarrow> int \<Rightarrow> string option \<Rightarrow> error + messages_response"
  search_messages :: "string \<Rightarrow> int \<Rightarrow> error + search_match list"
  chat_postMessage :: "string \<Rightarrow> string option \<Rightarrow> string option \<Rightarrow> error + post_response"

text \<open>The upstream calls that a tool handler performs, in order.\<close>

datatype api_call =
  ConversationsHistory string int "string option"
| ConversationsReplies string "string option" int "string option"
| SearchMessages string int
| ChatPostMessage string "string option" "string option"

section \<open>Directory cache\<close>

definition truthy :: "bool option \<Rightarrow> bool" where
  "truthy b = (case b of None \<Rightarrow> False | Some v \<Rightarrow> v)"


definition mk_channel :: "raw_channel \<Rightarrow> channel" where
  "mk_channel ch =
     \<lparr> ch_id = rc_id ch, ch_name = ''#'' @ rc_name ch,
       is_private = truthy (rc_is_private ch), is_im = truthy (rc_is_im ch),
       is_mpim = truthy (rc_is_mpim ch), topic = rc_topic ch, purpose = rc_purpose ch,
       num_members = rc_num_members ch \<rparr>"

text \<open>The body of the loop over \<open>result.channels\<close>: both tables are set from one record.\<close>

definition add_channel :: "cache \<Rightarrow> raw_channel \<Rightarrow> cache" where
  "add_channel c ch =
     (let channel = mk_channel ch
      in c\<lparr> channelsById := map_set (ch_id channel) channel (channelsById c),
             channelsByName := map_set (ch_name channel) channel (channelsByName c) \<rparr>)"

definition mk_user :: "raw_user \<Rightarrow> user" where
  "mk_user u =
     \<lparr> u_id = ru_id u, u_name = ru_name u, real_name = opt_or (ru_real_name u) (ru_name u) \<rparr>"

text \<open>The body of the loop over \<open>result.members\<close>: deleted and bot accounts are skipped.\<close>

definition add_user :: "cache \<Rightarrow> raw_user \<Rightarrow> cache" where
  "add_user c u =
     (if truthy (ru_deleted u) \<or> truthy (ru_is_bot u) then c
      else (let user = mk_user u
            in c\<lparr> usersById := map_set (u_id user) user (usersById c),
                   usersByName := map_set (''@'' @ u_name user) user (usersByName c) \<rparr>))"






text \<open>\<open>getUserName(userId)\<close>: \<open>user?.real_name || user?.name || userId\<close>.\<close>

definition getUserName :: "cache \<Rightarrow> string \<Rightarrow> string" where
  "getUserName c userId =
     (case map_get (usersById c) userId of
        None \<Rightarrow> userId
      | Some u \<Rightarrow> or_str (real_name u) (or_str (u_name u) userId))"

section \<open>Tool handlers\<close>

text \<open>
  The argument bag of a tool call. \<open>query\<close> is required by the tool's schema and is a string;
  every other argument may be absent.
\<close>

record tool_args =
  arg_types :: "string option"
  arg_limit :: "int option"
  arg_channel_id :: "string option"
  arg_cursor :: "string option"
  arg_thread_ts :: "string option"
  arg_query :: string
  arg_channel :: "string option"
  arg_from_user :: "string option"
  arg_text :: "string option"

text \<open>\<open>Math.min(args?.limit || dflt, cap)\<close>: a limit of zero is falsy.\<close>

definition clamp_limit :: "int option \<Rightarrow> int \<Rightarrow> int \<Rightarrow> int" where
  "clamp_limit l dflt cap =
     min (case l of None \<Rightarrow> dflt | Some n \<Rightarrow> if n = 0 then dflt else n) cap"

text \<open>The template \<open>"${(x || "").replace(/"/g, '""')}"\<close> of every free-text column.\<close>

definition csv_quote :: "string \<Rightarrow> string" where
  "csv_quote s = dquote # replace_quotes s @ [dquote]"

text \<open>The template \<open>"${x}"\<close>: quotes around the value as it is.\<close>

definition in_quotes :: "string \<Rightarrow> string" where
  "in_quotes s = dquote # s @ [dquote]"

subsection \<open>channels_list\<close>

definition list_types :: "string option \<Rightarrow> string" where
  "list_types t =
     join '','' (filter (\<lambda>t. t = ''public_channel'' \<or> t = ''private_channel'')
                  (split_on (CHR '','') (opt_or t ''public_channel,private_channel'')))"

text \<open>
  The loop over \<open>channelsById\<close>: \<open>continue\<close> on a flagged channel, \<open>break\<close> once the
  result has reached the limit.
\<close>

fun collect_channels :: "string \<Rightarrow> int \<Rightarrow> channel list \<Rightarrow> channel list \<Rightarrow> channel list" where
  "collect_channels types limit [] acc = acc"
| "collect_channels types limit (ch # rest) acc =
     (if is_im ch \<or> is_mpim ch then collect_channels types limit rest acc
      else
        (let acc' =
           (if includes_str types ''public_channel'' \<and> \<not> is_private ch then acc @ [ch]
            else if includes_str types ''private_channel'' \<and> is_private ch then acc @ [ch]
            else acc)
         in if int (length acc') \<ge> limit then acc'
            else collect_channels types limit rest acc'))"

definition channel_row :: "channel \<Rightarrow> string" where
  "channel_row c =
     ch_id c @ '','' @ ch_name c @ '','' @ csv_quote (opt_or (topic c) []) @ '','' @
     csv_quote (opt_or (purpose c) []) @ '','' @
     showNat (case num_members c of None \<Rightarrow> 0 | Some n \<Rightarrow> n)"

definition channels_csv :: "channel list \<Rightarrow> string" where
  "channels_csv chs = join newline (''id,name,topic,purpose,members'' # map channel_row chs)"

definition listed_channels :: "cache \<Rightarrow> tool_args \<Rightarrow> channel list" where
  "listed_channels c args =
     collect_channels (list_types (arg_types args)) (clamp_limit (arg_limit args) 100 1000)
       (map_values (channelsById c)) []"

definition handleChannelsList :: "cache \<Rightarrow> tool_args \<Rightarrow> api_call list \<times> (error + string)" where
  "handleChannelsList c args = ([], Inr (channels_csv (listed_channels c args)))"

subsection \<open>conversations_history and conversations_replies\<close>

text \<open>\<open>resolveChannelId(args.channel_id)\<close>: \<open>startsWith\<close> of an absent argument throws.\<close>

definition err_undefined :: error where
  "err_undefined =
     Error (''Cannot read properties of undefined (reading '' @ [CHR 0x27] @ ''startsWith'' @
            [CHR 0x27] @ '')'')"

definition resolve_arg :: "cache \<Rightarrow> string option \<Rightarrow> error + string" where
  "resolve_arg c a = (case a of None \<Rightarrow> Inl err_undefined | Some input \<Rightarrow> resolveChannelId c input)"

record history_item =
  h_ts :: string
  h_user :: string
  h_text :: "string option"
  h_thread_ts :: "string option"
  h_reactions :: "string option"
  h_cursor :: string

definition reaction_str :: "reaction \<Rightarrow> string" where
  "reaction_str r = r_name r @ '':'' @ showNat (r_count r)"

definition history_item_of :: "cache \<Rightarrow> message \<Rightarrow> history_item" where
  "history_item_of c m =
     \<lparr> h_ts = m_ts m, h_user = getUserName c (opt_or (m_user m) []), h_text = m_text m,
       h_thread_ts = m_thread_ts m,
       h_reactions = map_option (\<lambda>rs. join ''|'' (map reaction_str rs)) (m_reactions m),
       h_cursor = [] \<rparr>"

text \<open>
  \<open>if (messages.length > 0 && result.has_more) messages[messages.length - 1].cursor = ...\<close>
\<close>

definition set_last_cursor :: "history_item list \<Rightarrow> messages_response \<Rightarrow> history_item list" where
  "set_last_cursor items res =
     (if items \<noteq> [] \<and> resp_has_more res
      then butlast items @ [(last items)\<lparr> h_cursor := opt_or (resp_next_cursor res) [] \<rparr>]
      else items)"

definition history_items :: "cache \<Rightarrow> messages_response \<Rightarrow> history_item list" where
  "history_items c res = set_last_cursor (map (history_item_of c) (resp_messages res)) res"

definition history_row :: "history_item \<Rightarrow> string" where
  "history_row m =
     h_ts m @ '','' @ in_quotes (h_user m) @ '','' @ csv_quote (opt_or (h_text m) []) @ '','' @
     opt_or (h_thread_ts m) [] @ '','' @ in_quotes (opt_or (h_reactions m) []) @ '','' @ h_cursor m"

definition handleConversationsHistory ::
  "cache \<Rightarrow> remote \<Rightarrow> tool_args \<Rightarrow> api_call list \<times> (error + string)" where
  "handleConversationsHistory c r args =
     (case resolve_arg c (arg_channel_id args) of
        Inl e \<Rightarrow> ([], Inl e)
      | Inr channelId \<Rightarrow>
          (let limit = clamp_limit (arg_limit args) 50 100;
               calls = [ConversationsHistory channelId limit (arg_cursor args)]
           in case conversations_history r channelId limit (arg_cursor args) of
                Inl e \<Rightarrow> (calls, Inl e)
              | Inr res \<Rightarrow>
                  (calls, Inr (join newline (''ts,user,text,thread_ts,reactions,cursor'' #
                                             map history_row (history_items c res))))))"

definition reply_row :: "history_item \<Rightarrow> string" where
  "reply_row m =
     h_ts m @ '','' @ in_quotes (h_user m) @ '','' @ csv_quote (opt_or (h_text m) []) @ '','' @
     h_cursor m"

definition handleConversationsReplies ::
  "cache \<Rightarrow> remote \<Rightarrow> tool_args \<Rightarrow> api_call list \<times> (error + string)" where
  "handleConversationsReplies c r args =
     (case resolve_arg c (arg_channel_id args) of
        Inl e \<Rightarrow> ([], Inl e)
      | Inr channelId \<Rightarrow>
          (let limit = clamp_limit (arg_limit args) 50 100;
               calls = [ConversationsReplies channelId (arg_thread_ts args) limit (arg_cursor args)]
           in case conversations_replies r channelId (arg_thread_ts args) limit (arg_cursor args) of
                Inl e \<Rightarrow> (calls, Inl e)
              | Inr res \<Rightarrow>
                  (calls, Inr (join newline (''ts,user,text,cursor'' #
                                             map reply_row (history_items c res))))))"

subsection \<open>conversations_search\<close>

text \<open>\<open>s.replace("#", "")\<close>: the first occurrence only.\<close>

fun remove_first :: "char \<Rightarrow> string \<Rightarrow> string" where
  "remove_first d [] = []"
| "remove_first d (c # cs) = (if c = d then cs else c # remove_first d cs)"

text \<open>The channel clause: \<open>if (args.channel)\<close> skips an absent or empty filter.\<close>

definition search_channel_clause :: "cache \<Rightarrow> string option \<Rightarrow> error + string" where
  "search_channel_clause c a =
     (case a of
        None \<Rightarrow> Inr []
      | Some input \<Rightarrow>
          if input = [] then Inr []
          else (case resolveChannelId c input of
                  Inl e \<Rightarrow> Inl e
                | Inr channelId \<Rightarrow>
                    (case map_get (channelsById c) channelId of
                       None \<Rightarrow> Inr []
                     | Some ch \<Rightarrow> Inr ('' in:'' @ remove_first (CHR ''#'') (ch_name ch)))))"

definition search_user_clause :: "cache \<Rightarrow> string option \<Rightarrow> string" where
  "search_user_clause c a =
     (case a of
        None \<Rightarrow> []
      | Some from_user \<Rightarrow>
          if from_user = [] then []
          else '' from:'' @
               (if startsWith from_user ''@'' then tl from_user
                else (case map_get (usersById c) from_user of
                        None \<Rightarrow> from_user
                      | Some u \<Rightarrow> or_str (u_name u) from_user)))"

definition search_row :: "search_match \<Rightarrow> string" where
  "search_row m =
     sm_ts m @ '','' @ in_quotes (''#'' @ opt_or (sm_channel_name m) ''unknown'') @ '','' @
     in_quotes (opt_or (sm_user m) (opt_or (sm_username m) [])) @ '','' @
     csv_quote (opt_or (sm_text m) [])"

definition handleConversationsSearch ::
  "cache \<Rightarrow> remote \<Rightarrow> tool_args \<Rightarrow> api_call list \<times> (error + string)" where
  "handleConversationsSearch c r args =
     (case search_channel_clause c (arg_channel args) of
        Inl e \<Rightarrow> ([], Inl e)
      | Inr clause \<Rightarrow>
          (let query = arg_query args @ clause @ search_user_clause c (arg_from_user args);
               count = clamp_limit (arg_limit args) 20 100;
               calls = [SearchMessages query count]
           in case search_messages r query count of
                Inl e \<Rightarrow> (calls, Inl e)
              | Inr matches \<Rightarrow>
                  (calls, Inr (join newline (''ts,channel,user,text'' # map search_row matches)))))"

subsection \<open>conversations_add_message\<close>

text \<open>
  The two module constants read from the variable \<open>SLACK_MCP_ADD_MESSAGE_TOOL\<close>.
\<close>

record config =
  ADD_MESSAGE_ENABLED :: bool
  ALLOWED_CHANNELS :: "string list option"

definition config_of_env :: "string option \<Rightarrow> config" where
  "config_of_env v =
     \<lparr> ADD_MESSAGE_ENABLED = (v = Some ''true'' \<or> v = Some ''1''),
       ALLOWED_CHANNELS =
         (case v of
            None \<Rightarrow> None
          | Some s \<Rightarrow> if startsWith s ''C'' then Some (split_on (CHR '','') s) else None) \<rparr>"

definition err_posting_disabled :: error where
  "err_posting_disabled =
     Error (''Message posting is disabled. Set SLACK_MCP_ADD_MESSAGE_TOOL=true '' @
            ''or to a list of channel IDs.'')"

definition err_not_allowed :: "string \<Rightarrow> error" where
  "err_not_allowed channelId = Error (''Posting to channel '' @ channelId @ '' is not allowed.'')"

definition handleAddMessage ::
  "config \<Rightarrow> cache \<Rightarrow> remote \<Rightarrow> tool_args \<Rightarrow> api_call list \<times> (error + string)" where
  "handleAddMessage cfg c r args =
     (if \<not> ADD_MESSAGE_ENABLED cfg \<and> ALLOWED_CHANNELS cfg = None then ([], Inl err_posting_disabled)
      else
        (case resolve_arg c (arg_channel_id args) of
           Inl e \<Rightarrow> ([], Inl e)
         | Inr channelId \<Rightarrow>
             if (case ALLOWED_CHANNELS cfg of
                   None \<Rightarrow> False
                 | Some allowed \<Rightarrow> channelId \<notin> set allowed)
             then ([], Inl (err_not_allowed channelId))
             else
               (let calls = [ChatPostMessage channelId (arg_text args) (arg_thread_ts args)]
                in case chat_postMessage r channelId (arg_text args) (arg_thread_ts args) of
                     Inl e \<Rightarrow> (calls, Inl e)
                   | Inr res \<Rightarrow>
                       (calls, Inr (''Message posted: ts='' @ post_ts res @ '', channel='' @
                                    post_channel res)))))"

subsection \<open>Dispatch\<close>

record tool_result =
  content_text :: string
  isError :: bool

text \<open>The \<open>switch\<close> on the tool's name, inside \<open>try\<close>.\<close>

definition dispatch ::
  "config \<Rightarrow> cache \<Rightarrow> remote \<Rightarrow> string \<Rightarrow> tool_args \<Rightarrow> api_call list \<times> (error + string)" where
  "dispatch cfg c r name args =
     (if name = ''channels_list'' then handleChannelsList c args
      else if name = ''conversations_history'' then handleConversationsHistory c r args
      else if name = ''conversations_replies'' then handleConversationsReplies c r args
      else if name = ''conversations_search'' then handleConversationsSearch c r args
      else if name = ''conversations_add_message'' then handleAddMessage cfg c r args
      else ([], Inl (Error (''Unknown tool: '' @ name))))"

text \<open>
  The result of the handler: the text that the tool returned, or, from \<open>catch\<close>, the
  message of the thrown error with \<open>isError\<close> set.
\<close>

definition to_result :: "error + string \<Rightarrow> tool_result" where
  "to_result res =
     (case res of
        Inl e \<Rightarrow> \<lparr> content_text = ''Error: '' @ error_message e, isError = True \<rparr>
      | Inr text \<Rightarrow> \<lparr> content_text = text, isError = False \<rparr>)"

definition callTool ::
  "config \<Rightarrow> cache \<Rightarrow> remote \<Rightarrow> string \<Rightarrow> tool_args \<Rightarrow> api_call list \<times> tool_result" where
  "callTool cfg c r name args =
     (case dispatch cfg c r name args of (calls, res) \<Rightarrow> (calls, to_result res))"

subsection \<open>Resources\<close>

definition endsWith :: "string \<Rightarrow> string \<Rightarrow> bool" where
  "endsWith s p = startsWith (rev s) (rev p)"

definition resource_channels :: "cache \<Rightarrow> channel list" where
  "resource_channels c = filter (\<lambda>ch. \<not> is_im ch \<and> \<not> is_mpim ch) (map_values (channelsById c))"

definition user_row :: "user \<Rightarrow> string" where
  "user_row u = u_id u @ '','' @ u_name u @ '','' @ in_quotes (real_name u)"

definition readResource :: "cache \<Rightarrow> string \<Rightarrow> error + string" where
  "readResource c uri =
     (if endsWith uri ''/channels'' then Inr (channels_csv (resource_channels c))
      else if endsWith uri ''/users'' then
        Inr (join newline (''id,name,real_name'' # map user_row (map_values (usersById c))))
      else Inl (Error (''Unknown resource: '' @ uri)))"

section \<open>Reading a rendered field back\<close>



section \<open>Derived notions used in the statements\<close>

text \<open>Resolving the result of a resolution again.\<close>

definition resolve_twice :: "cache \<Rightarrow> string \<Rightarrow> error + string" where
  "resolve_twice c x = (case resolveChannelId c x of Inl e \<Rightarrow> Inl e | Inr y \<Rightarrow> resolveChannelId c y)"





text \<open>The type filter inside the listing loop, as a function of the result so far.\<close>

definition push_if_type :: "string \<Rightarrow> channel \<Rightarrow> channel list \<Rightarrow> channel list" where
  "push_if_type types a acc =
     (if includes_str types ''public_channel'' \<and> \<not> is_private a then acc @ [a]
      else if includes_str types ''private_channel'' \<and> is_private a then acc @ [a]
      else acc)"





section \<open>Example workspace\<close>

definition raw_chan :: "string \<Rightarrow> string \<Rightarrow> bool \<Rightarrow> bool \<Rightarrow> raw_channel" where
  "raw_chan i n priv mpim =
     \<lparr> rc_id = i, rc_name = n, rc_is_private = Some priv, rc_is_im = None,
       rc_is_mpim = Some mpim, rc_topic = None, rc_purpose = None, rc_num_members = Some 3 \<rparr>"

definition raw_usr :: "string \<Rightarrow> string \<Rightarrow> raw_user" where
  "raw_usr i n =
     \<lparr> ru_id = i, ru_name = n, ru_real_name = None, ru_deleted = None, ru_is_bot = None \<rparr>"

definition offline :: remote where
  "offline =
     \<lparr> auth_test = Inl (Error ''offline''),
       conversations_list = (\<lambda>cur. Inl (Error ''offline'')),
       users_list = (\<lambda>cur. Inl (Error ''offline'')),
       conversations_history = (\<lambda>ch l cur. Inl (Error ''offline'')),
       conversations_replies = (\<lambda>ch ts l cur. Inl (Error ''offline'')),
       search_messages = (\<lambda>q n. Inl (Error ''offline'')),
       chat_postMessage = (\<lambda>ch t ts. Inl (Error ''offline'')) \<rparr>"

text \<open>A workspace whose listings fit on one page each.\<close>

definition one_page :: "raw_channel list \<Rightarrow> raw_user list \<Rightarrow> remote" where
  "one_page chans members =
     offline\<lparr> auth_test := Inr (Some ''acme''),
              conversations_list :=
                (\<lambda>cur. Inr \<lparr> pg_channels = chans, pg_channels_cursor = None \<rparr>),
              users_list := (\<lambda>cur. Inr \<lparr> pg_members = members, pg_members_cursor = None \<rparr>),
              conversations_history :=
                (\<lambda>ch l cur. Inr \<lparr> resp_messages =
                                     [\<lparr> m_ts = ''1.0'', m_user = Some ''U404'', m_text = Some ''hi'',
                                        m_thread_ts = None, m_reactions = None \<rparr>],
                                   resp_has_more = False, resp_next_cursor = None \<rparr>),
              chat_postMessage := (\<lambda>ch t ts. Inr \<lparr> post_ts = ''2.0'', post_channel = ch \<rparr>) \<rparr>"

definition demo_channels :: "raw_channel list" where
  "demo_channels =
     [raw_chan ''C1'' ''general'' False False, raw_chan ''C2'' ''secret'' True False,
      raw_chan ''G1'' ''mpdm-a--b-1'' True True]"

definition demo_users :: "raw_user list" where
  "demo_users = [raw_usr ''U1'' ''alice'']"

definition demo_cache :: cache where
  "demo_cache = foldl add_user (foldl add_channel empty_cache demo_channels) demo_users"

definition no_args :: tool_args where
  "no_args =
     \<lparr> arg_types = None, arg_limit = None, arg_channel_id = None, arg_cursor = None,
       arg_thread_ts = None, arg_query = [], arg_channel = None, arg_from_user = None,
       arg_text = None \<rparr>"




definition demo_remote :: remote where
  "demo_remote = one_page demo_channels demo_users"

section \<open>Basic facts\<close>

lemma startsWith_single: "startsWith s [a] = (\<exists>t. s = a # t)"
  by (cases s) auto





lemma demo_cache_eval:
  "channelsById demo_cache =
     [(''C1'', mk_channel (raw_chan ''C1'' ''general'' False False)),
      (''C2'', mk_channel (raw_chan ''C2'' ''secret'' True False)),
      (''G1'', mk_channel (raw_chan ''G1'' ''mpdm-a--b-1'' True True))]"
  "channelsByName demo_cache =
     [(''#general'', mk_channel (raw_chan ''C1'' ''general'' False False)),
      (''#secret'', mk_channel (raw_chan ''C2'' ''secret'' True False)),
      (''#mpdm-a--b-1'', mk_channel (raw_chan ''G1'' ''mpdm-a--b-1'' True True))]"
  "usersById demo_cache = [(''U1'', mk_user (raw_usr ''U1'' ''alice''))]"
  "usersByName demo_cache = [(''@alice'', mk_user (raw_usr ''U1'' ''alice''))]"
  by (simp_all add: demo_cache_def demo_channels_def demo_users_def empty_cache_def add_channel_def
      add_user_def mk_channel_def mk_user_def raw_chan_def raw_usr_def truthy_def Let_def)


lemma list_types_default: "list_types None = ''public_channel,private_channel''"
  by (simp add: list_types_def opt_or_def or_str_def)

lemma list_types_public: "list_types (Some ''public_channel'') = ''public_channel''"
  by (simp add: list_types_def opt_or_def or_str_def)

lemma includes_eval:
  "includes_str ''public_channel,private_channel'' ''public_channel''"
  "includes_str ''public_channel,private_channel'' ''private_channel''"
  "includes_str ''public_channel'' ''public_channel''"
  "\<not> includes_str ''public_channel'' ''private_channel''"
  by simp_all

section \<open>Resolution of a target\<close>

text \<open>
  C2. \<open>resolveChannelId\<close> follows the four steps for every input: an input that starts
  with \<open>@\<close> is rejected whatever the cache holds; so is an input that starts with \<open>D\<close>;
  an input that starts with \<open>#\<close> is looked up by name, where an unknown name gives the
  not-found error, which is none of the three security rejections, a flagged channel is
  rejected and any other channel gives its id; any other input is looked up by id, where a
  flagged channel is rejected and an input that is absent from the cache, or cached and not
  flagged, is returned as it is.
\<close>

theorem resolveChannelId_four_steps:
  "(startsWith input ''@'' \<longrightarrow> (\<forall>c. resolveChannelId c input = Inl err_dm_at)) \<and>
   (startsWith input ''D'' \<longrightarrow> (\<forall>c. resolveChannelId c input = Inl err_dm_prefix)) \<and>
   (startsWith input ''#'' \<longrightarrow>
      (map_get (channelsByName c) input = None \<longrightarrow>
         resolveChannelId c input = Inl (err_not_found input) \<and>
         err_not_found input \<notin> {err_dm_at, err_dm_prefix, err_dm_cached}) \<and>
      (\<forall>ch. map_get (channelsByName c) input = Some ch \<longrightarrow>
         resolveChannelId c input =
           (if is_im ch \<or> is_mpim ch then Inl err_dm_cached else Inr (ch_id ch)))) \<and>
   (\<not> startsWith input ''@'' \<and> \<not> startsWith input ''D'' \<and> \<not> startsWith input ''#'' \<longrightarrow>
      (map_get (channelsById c) input = None \<longrightarrow> resolveChannelId c input = Inr input) \<and>
      (\<forall>ch. map_get (channelsById c) input = Some ch \<longrightarrow>
         resolveChannelId c input =
           (if is_im ch \<or> is_mpim ch then Inl err_dm_cached else Inr input)))"
  by (auto simp: resolveChannelId_def startsWith_single err_not_found_def err_dm_at_def
      err_dm_prefix_def err_dm_cached_def)

text \<open>The four steps on the example workspace, one input for each branch.\<close>

theorem resolveChannelId_four_steps_witness:
  "startsWith ''@bob'' ''@'' \<and> resolveChannelId demo_cache ''@bob'' = Inl err_dm_at \<and>
   startsWith ''D123'' ''D'' \<and> resolveChannelId demo_cache ''D123'' = Inl err_dm_prefix \<and>
   startsWith ''#nope'' ''#'' \<and> map_get (channelsByName demo_cache) ''#nope'' = None \<and>
   resolveChannelId demo_cache ''#nope'' = Inl (err_not_found ''#nope'') \<and>
   resolveChannelId demo_cache ''#general'' = Inr ''C1'' \<and>
   resolveChannelId demo_cache ''#mpdm-a--b-1'' = Inl err_dm_cached \<and>
   map_get (channelsById demo_cache) ''C999'' = None \<and>
   resolveChannelId demo_cache ''C999'' = Inr ''C999'' \<and>
   resolveChannelId demo_cache ''C2'' = Inr ''C2'' \<and>
   resolveChannelId demo_cache ''G1'' = Inl err_dm_cached"
  using resolveChannelId_four_steps [of "''@bob''" demo_cache]
    resolveChannelId_four_steps [of "''D123''" demo_cache]
    resolveChannelId_four_steps [of "''#nope''" demo_cache]
    resolveChannelId_four_steps [of "''#general''" demo_cache]
    resolveChannelId_four_steps [of "''#mpdm-a--b-1''" demo_cache]
    resolveChannelId_four_steps [of "''C999''" demo_cache]
    resolveChannelId_four_steps [of "''C2''" demo_cache]
    resolveChannelId_four_steps [of "''G1''" demo_cache]
  by (simp add: demo_cache_eval map_get_def mk_channel_def raw_chan_def truthy_def)

text \<open>
  C8. Resolution is idempotent on valid targets: a raw id that is cached as a channel with
  neither flag set, and that starts with none of \<open>@\<close>, \<open>D\<close> and \<open>#\<close>, resolves to
  itself, so resolving the result again gives the same result.
\<close>

theorem resolveChannelId_idempotent:
  assumes "map_get (channelsById c) x = Some ch" and "\<not> is_im ch" and "\<not> is_mpim ch"
    and "\<not> startsWith x ''@''" and "\<not> startsWith x ''D''" and "\<not> startsWith x ''#''"
  shows "resolveChannelId c x = Inr x \<and> resolve_twice c x = resolveChannelId c x"
  using assms by (simp add: resolveChannelId_def resolve_twice_def)

text \<open>The private channel \<open>C2\<close> of the example workspace resolves to itself.\<close>

theorem resolveChannelId_idempotent_witness:
  "map_get (channelsById demo_cache) ''C2'' =
     Some (mk_channel (raw_chan ''C2'' ''secret'' True False)) \<and>
   resolveChannelId demo_cache ''C2'' = Inr ''C2'' \<and>
   resolve_twice demo_cache ''C2'' = resolveChannelId demo_cache ''C2''"
  using resolveChannelId_idempotent [of demo_cache "''C2''"
      "mk_channel (raw_chan ''C2'' ''secret'' True False)"]
  by (simp add: demo_cache_eval map_get_def mk_channel_def raw_chan_def truthy_def)

text \<open>
  C6, as the code has it. A security rejection carries one of three fixed messages, and
  which one is decided by the check that matched: the \<open>@\<close> prefix, the \<open>D\<close> prefix, or a
  flag of the cached channel. The message does not depend on the cached record, on which of
  the two flags is set, or on whether the channel was found by name or by id.
\<close>

theorem rejection_message_by_check:
  assumes "resolveChannelId c input = Inl e" and "e \<noteq> err_not_found input"
  shows "e = (if startsWith input ''@'' then err_dm_at
              else if startsWith input ''D'' then err_dm_prefix
              else err_dm_cached)"
  using assms by (auto simp: resolveChannelId_def split: if_splits option.splits)

text \<open>The group conversation of the example workspace, addressed by id and by name.\<close>

theorem rejection_message_by_check_witness:
  "resolveChannelId demo_cache ''G1'' = Inl err_dm_cached \<and>
   err_dm_cached \<noteq> err_not_found ''G1'' \<and>
   resolveChannelId demo_cache ''#mpdm-a--b-1'' = Inl err_dm_cached \<and>
   err_dm_cached \<noteq> err_not_found ''#mpdm-a--b-1''"
  using rejection_message_by_check [of demo_cache "''G1''" err_dm_cached]
    rejection_message_by_check [of demo_cache "''#mpdm-a--b-1''" err_dm_cached]
  by (simp add: resolveChannelId_def demo_cache_eval map_get_def mk_channel_def raw_chan_def
      truthy_def err_dm_cached_def err_not_found_def)

text \<open>
  The message is not one constant per category: two direct-message addresses, \<open>@bob\<close> and
  \<open>D123\<close>, are rejected with different messages, each naming the check that matched, and
  a third message is used when a cached flag matched.
\<close>

theorem rejection_message_varies_counterexample:
  "resolveChannelId empty_cache ''@bob'' = Inl err_dm_at \<and>
   resolveChannelId empty_cache ''D123'' = Inl err_dm_prefix \<and>
   resolveChannelId demo_cache ''G1'' = Inl err_dm_cached \<and>
   err_dm_at \<noteq> err_dm_prefix \<and> err_dm_prefix \<noteq> err_dm_cached \<and> err_dm_at \<noteq> err_dm_cached"
  by (simp add: resolveChannelId_def err_dm_at_def err_dm_prefix_def err_dm_cached_def
      demo_cache_eval map_get_def mk_channel_def raw_chan_def truthy_def)

section \<open>Rendering\<close>




lemma h_user_set_last_cursor: "map h_user (set_last_cursor items res) = map h_user items"
proof (cases items rule: rev_cases)
  case Nil
  then show ?thesis by (simp add: set_last_cursor_def)
next
  case (snoc ys y)
  then show ?thesis by (simp add: set_last_cursor_def)
qed

text \<open>
  C9. The display name of an author falls back from \<open>real_name\<close> to the handle to the id
  itself: an id that is absent from the user cache (the empty id of a message without an
  author included) is rendered as it is, and a non-empty id never renders as an empty
  author. The history and the replies operation put this name, in message order, into the
  user column of their rows.
\<close>

theorem getUserName_fallback:
  "(map_get (usersById c) uid = None \<longrightarrow> getUserName c uid = uid) \<and>
   (\<forall>u. map_get (usersById c) uid = Some u \<longrightarrow>
      getUserName c uid =
        (if real_name u \<noteq> [] then real_name u else if u_name u \<noteq> [] then u_name u else uid)) \<and>
   (uid \<noteq> [] \<longrightarrow> getUserName c uid \<noteq> []) \<and>
   map h_user (history_items c res) =
     map (\<lambda>m. getUserName c (case m_user m of None \<Rightarrow> [] | Some i \<Rightarrow> i)) (resp_messages res) \<and>
   (\<exists>rest. history_row item = h_ts item @ '','' @ in_quotes (h_user item) @ rest) \<and>
   (\<exists>rest. reply_row item = h_ts item @ '','' @ in_quotes (h_user item) @ rest) \<and>
   (conversations_history r ch (clamp_limit (arg_limit args) 50 100) (arg_cursor args) = Inr res \<and>
    resolve_arg c (arg_channel_id args) = Inr ch \<longrightarrow>
      snd (handleConversationsHistory c r args) =
        Inr (join newline (''ts,user,text,thread_ts,reactions,cursor'' #
                           map history_row (history_items c res)))) \<and>
   (conversations_replies r ch (arg_thread_ts args) (clamp_limit (arg_limit args) 50 100)
      (arg_cursor args) = Inr res \<and>
    resolve_arg c (arg_channel_id args) = Inr ch \<longrightarrow>
      snd (handleConversationsReplies c r args) =
        Inr (join newline (''ts,user,text,cursor'' # map reply_row (history_items c res))))"
  by (auto simp: getUserName_def or_str_def opt_or_def history_items_def h_user_set_last_cursor
      history_item_of_def handleConversationsHistory_def handleConversationsReplies_def Let_def
      history_row_def reply_row_def split: option.splits)

text \<open>
  A message of the unknown author \<open>U404\<close> in the channel \<open>C1\<close> of the example
  workspace: the history row shows the id.
\<close>

theorem getUserName_fallback_witness:
  "map_get (usersById demo_cache) ''U404'' = None \<and>
   getUserName demo_cache ''U404'' = ''U404'' \<and>
   getUserName demo_cache ''U1'' = ''alice'' \<and>
   snd (handleConversationsHistory demo_cache demo_remote
          (no_args\<lparr> arg_channel_id := Some ''C1'' \<rparr>)) =
     Inr (''ts,user,text,thread_ts,reactions,cursor'' @ newline @
          ''1.0,'' @ in_quotes ''U404'' @ '','' @ in_quotes ''hi'' @ '','' @ '','' @
          in_quotes [] @ '','')"
  using getUserName_fallback [of demo_cache "''U404''" _ _ demo_remote "''C1''"
      "no_args\<lparr> arg_channel_id := Some ''C1'' \<rparr>"]
    getUserName_fallback [of demo_cache "''U1''"]
  apply (simp add: demo_cache_eval map_get_def mk_user_def raw_usr_def opt_or_def or_str_def)
  apply (simp add: demo_remote_def one_page_def offline_def no_args_def clamp_limit_def
      resolve_arg_def resolveChannelId_def demo_cache_eval map_get_def mk_channel_def raw_chan_def
      truthy_def history_items_def set_last_cursor_def history_item_of_def history_row_def
      getUserName_def opt_or_def or_str_def csv_quote_def in_quotes_def dquote_def)
  done

section \<open>Posting\<close>

text \<open>
  C10. When posting is not enabled (the flag is off and there is no allow-list), the
  posting operation fails with the posting-disabled error for every target, cache and
  remote service, before the target is resolved and without any upstream call.
\<close>

theorem posting_disabled_first:
  assumes "\<not> ADD_MESSAGE_ENABLED cfg" and "ALLOWED_CHANNELS cfg = None"
  shows "handleAddMessage cfg c r args = ([], Inl err_posting_disabled) \<and>
         callTool cfg c r ''conversations_add_message'' args =
           ([], \<lparr> content_text = ''Error: '' @ error_message err_posting_disabled,
                  isError = True \<rparr>)"
  using assms by (simp add: handleAddMessage_def callTool_def dispatch_def to_result_def)

text \<open>
  Without the variable set: a valid channel, an unknown id and a direct-message address
  get the same error.
\<close>

theorem posting_disabled_first_witness:
  "\<not> ADD_MESSAGE_ENABLED (config_of_env None) \<and> ALLOWED_CHANNELS (config_of_env None) = None \<and>
   handleAddMessage (config_of_env None) demo_cache demo_remote
     (no_args\<lparr> arg_channel_id := Some ''C1'' \<rparr>) = ([], Inl err_posting_disabled) \<and>
   handleAddMessage (config_of_env None) demo_cache demo_remote
     (no_args\<lparr> arg_channel_id := Some ''C999'' \<rparr>) = ([], Inl err_posting_disabled) \<and>
   handleAddMessage (config_of_env None) demo_cache demo_remote
     (no_args\<lparr> arg_channel_id := Some ''@bob'' \<rparr>) = ([], Inl err_posting_disabled)"
  using posting_disabled_first [of "config_of_env None" demo_cache demo_remote
      "no_args\<lparr> arg_channel_id := Some ''C1'' \<rparr>"]
    posting_disabled_first [of "config_of_env None" demo_cache demo_remote
      "no_args\<lparr> arg_channel_id := Some ''C999'' \<rparr>"]
    posting_disabled_first [of "config_of_env None" demo_cache demo_remote
      "no_args\<lparr> arg_channel_id := Some ''@bob'' \<rparr>"]
  by (simp add: config_of_env_def)

text \<open>
  C5. Posting enablement is strict. With neither the flag nor an allow-list, every target
  is rejected. With an allow-list, whatever the flag, a resolved id that is not on the list
  is rejected without an upstream call, and a resolved id on the list is posted to: the one
  upstream call is the post to that id, and the result is the one of the remote service.
\<close>

theorem posting_enablement_strict:
  "(\<not> ADD_MESSAGE_ENABLED cfg \<and> ALLOWED_CHANNELS cfg = None \<longrightarrow>
      handleAddMessage cfg c r args = ([], Inl err_posting_disabled)) \<and>
   (ALLOWED_CHANNELS cfg = Some allowed \<and> resolve_arg c (arg_channel_id args) = Inr channelId \<longrightarrow>
      (channelId \<notin> set allowed \<longrightarrow>
         handleAddMessage cfg c r args = ([], Inl (err_not_allowed channelId))) \<and>
      (channelId \<in> set allowed \<longrightarrow>
         handleAddMessage cfg c r args =
           ([ChatPostMessage channelId (arg_text args) (arg_thread_ts args)],
            (case chat_postMessage r channelId (arg_text args) (arg_thread_ts args) of
               Inl e \<Rightarrow> Inl e
             | Inr res \<Rightarrow>
                 Inr (''Message posted: ts='' @ post_ts res @ '', channel='' @ post_channel res)))))"
  by (auto simp: handleAddMessage_def Let_def split: sum.splits)

text \<open>
  The allow-list \<open>C100\<close>: the target \<open>C100\<close> is posted to and \<open>C200\<close> is rejected, with
  the flag off and with the flag on; the value \<open>false\<close> enables nothing.
\<close>

theorem posting_enablement_strict_witness:
  "ALLOWED_CHANNELS (config_of_env (Some ''C100'')) = Some [''C100''] \<and>
   \<not> ADD_MESSAGE_ENABLED (config_of_env (Some ''C100'')) \<and>
   resolve_arg demo_cache (Some ''C100'') = Inr ''C100'' \<and>
   resolve_arg demo_cache (Some ''C200'') = Inr ''C200'' \<and>
   handleAddMessage (config_of_env (Some ''C100'')) demo_cache demo_remote
     (no_args\<lparr> arg_channel_id := Some ''C100'', arg_text := Some ''hello'' \<rparr>) =
     ([ChatPostMessage ''C100'' (Some ''hello'') None],
      Inr ''Message posted: ts=2.0, channel=C100'') \<and>
   handleAddMessage (config_of_env (Some ''C100'')) demo_cache demo_remote
     (no_args\<lparr> arg_channel_id := Some ''C200'', arg_text := Some ''hello'' \<rparr>) =
     ([], Inl (err_not_allowed ''C200'')) \<and>
   handleAddMessage \<lparr> ADD_MESSAGE_ENABLED = True, ALLOWED_CHANNELS = Some [''C100''] \<rparr> demo_cache
     demo_remote (no_args\<lparr> arg_channel_id := Some ''C200'', arg_text := Some ''hello'' \<rparr>) =
     ([], Inl (err_not_allowed ''C200'')) \<and>
   handleAddMessage (config_of_env (Some ''false'')) demo_cache demo_remote
     (no_args\<lparr> arg_channel_id := Some ''C100'', arg_text := Some ''hello'' \<rparr>) =
     ([], Inl err_posting_disabled)"
  using
    posting_enablement_strict [where cfg = "config_of_env (Some ''C100'')" and allowed = "[''C100'']"
      and c = demo_cache and r = demo_remote and channelId = "''C100''"
      and args = "no_args\<lparr> arg_channel_id := Some ''C100'', arg_text := Some ''hello'' \<rparr>"]
    posting_enablement_strict [where cfg = "config_of_env (Some ''C100'')" and allowed = "[''C100'']"
      and c = demo_cache and r = demo_remote and channelId = "''C200''"
      and args = "no_args\<lparr> arg_channel_id := Some ''C200'', arg_text := Some ''hello'' \<rparr>"]
    posting_enablement_strict [where
      cfg = "\<lparr> ADD_MESSAGE_ENABLED = True, ALLOWED_CHANNELS = Some [''C100''] \<rparr>"
      and allowed = "[''C100'']" and c = demo_cache and r = demo_remote and channelId = "''C200''"
      and args = "no_args\<lparr> arg_channel_id := Some ''C200'', arg_text := Some ''hello'' \<rparr>"]
    posting_enablement_strict [where cfg = "config_of_env (Some ''false'')"
      and c = demo_cache and r = demo_remote
      and args = "no_args\<lparr> arg_channel_id := Some ''C100'', arg_text := Some ''hello'' \<rparr>"]
  by (simp add: config_of_env_def no_args_def resolve_arg_def resolveChannelId_def demo_cache_eval
      map_get_def demo_remote_def one_page_def offline_def)

section \<open>Listing\<close>

lemma collect_step_flagged:
  "is_im a \<or> is_mpim a \<Longrightarrow>
   collect_channels types limit (a # chs) acc = collect_channels types limit chs acc"
  by simp

lemma collect_step_unflagged:
  "\<not> (is_im a \<or> is_mpim a) \<Longrightarrow>
   collect_channels types limit (a # chs) acc =
     (if int (length (push_if_type types a acc)) \<ge> limit then push_if_type types a acc
      else collect_channels types limit chs (push_if_type types a acc))"
  unfolding push_if_type_def by (simp only: collect_channels.simps if_False Let_def)

lemma push_if_type_unflagged:
  "\<forall>ch \<in> set acc. \<not> is_im ch \<and> \<not> is_mpim ch \<Longrightarrow> \<not> (is_im a \<or> is_mpim a) \<Longrightarrow>
   \<forall>ch \<in> set (push_if_type types a acc). \<not> is_im ch \<and> \<not> is_mpim ch"
  unfolding push_if_type_def by (simp only: split: if_split) auto

lemma collect_channels_unflagged:
  "\<forall>ch \<in> set acc. \<not> is_im ch \<and> \<not> is_mpim ch \<Longrightarrow>
   \<forall>ch \<in> set (collect_channels types limit chs acc). \<not> is_im ch \<and> \<not> is_mpim ch"
proof (induction chs arbitrary: acc)
  case Nil
  then show ?case by simp
next
  case (Cons a chs)
  show ?case
  proof (cases "is_im a \<or> is_mpim a")
    case True
    from Cons.IH [OF Cons.prems] show ?thesis
      by (simp only: collect_step_flagged [OF True])
  next
    case False
    note acc' = push_if_type_unflagged [OF Cons.prems False, of types]
    show ?thesis
    proof (cases "int (length (push_if_type types a acc)) \<ge> limit")
      case True
      with acc' show ?thesis
        by (simp only: collect_step_unflagged [OF False] if_True)
    next
      case ge: False
      from Cons.IH [OF acc'] show ?thesis
        by (simp only: collect_step_unflagged [OF False] ge if_False)
    qed
  qed
qed

lemma demo_listing:
  "map ch_id (listed_channels demo_cache no_args) = [''C1'', ''C2'']"
  "map ch_id (listed_channels demo_cache (no_args\<lparr> arg_types := Some ''public_channel'' \<rparr>)) =
     [''C1'']"
  by (simp_all add: listed_channels_def no_args_def list_types_default list_types_public
      clamp_limit_def demo_cache_eval map_values_def mk_channel_def raw_chan_def truthy_def
      includes_eval del: includes_str.simps)

text \<open>
  C3. For every cache, type filter and limit, the listing operation returns no channel
  whose \<open>is_im\<close> or \<open>is_mpim\<close> flag is set, and its text is rendered from the channels
  it selected; the same holds for the channels resource.
\<close>

theorem listing_never_flagged:
  "(\<forall>ch \<in> set (listed_channels c args). \<not> is_im ch \<and> \<not> is_mpim ch) \<and>
   handleChannelsList c args = ([], Inr (channels_csv (listed_channels c args))) \<and>
   (\<forall>ch \<in> set (resource_channels c). \<not> is_im ch \<and> \<not> is_mpim ch) \<and>
   (endsWith uri ''/channels'' \<longrightarrow> readResource c uri = Inr (channels_csv (resource_channels c)))"
proof -
  have "\<forall>ch \<in> set (listed_channels c args). \<not> is_im ch \<and> \<not> is_mpim ch"
    unfolding listed_channels_def by (rule collect_channels_unflagged) simp
  then show ?thesis
    by (simp add: handleChannelsList_def resource_channels_def readResource_def)
qed

text \<open>
  The example workspace caches the group conversation \<open>G1\<close>; neither the listing, with
  the default types or with the public type alone, nor the resource shows it.
\<close>

theorem listing_never_flagged_witness:
  "map ch_id (map_values (channelsById demo_cache)) = [''C1'', ''C2'', ''G1''] \<and>
   map ch_id (listed_channels demo_cache no_args) = [''C1'', ''C2''] \<and>
   map ch_id (listed_channels demo_cache (no_args\<lparr> arg_types := Some ''public_channel'' \<rparr>)) =
     [''C1''] \<and>
   map is_mpim (listed_channels demo_cache no_args) = [False, False] \<and>
   map ch_id (resource_channels demo_cache) = [''C1'', ''C2''] \<and>
   endsWith ''slack://acme/channels'' ''/channels'' \<and>
   readResource demo_cache ''slack://acme/channels'' =
     Inr (channels_csv (resource_channels demo_cache))"
proof -
  have ids: "map ch_id (listed_channels demo_cache no_args) = [''C1'', ''C2'']"
    by (rule demo_listing)
  then obtain a b where ab: "listed_channels demo_cache no_args = [a, b]"
    by auto
  from listing_never_flagged [of demo_cache no_args "''slack://acme/channels''"] ab
  have flags: "map is_mpim (listed_channels demo_cache no_args) = [False, False]"
    by simp
  from listing_never_flagged [of demo_cache no_args "''slack://acme/channels''"] flags
  show ?thesis
    by (simp add: demo_listing demo_cache_eval map_values_def mk_channel_def raw_chan_def
        truthy_def resource_channels_def endsWith_def)
qed

section \<open>Cache build\<close>





















section \<open>Direct messages are out of reach\<close>





















end
